theory Spec2Isabelle
  imports Main "HOL-Library.Code_Target_Nat"
begin

section \<open>Version comparison (\<open>compareVersions\<close> in \<open>src/services/update-manager.js\<close>)\<close>

text \<open>
  JavaScript strings are modelled as \<^typ>\<open>string\<close>: a list of code units, each below 256.
  A number that \<open>parseInt\<close> returns is a double with an integer value or an infinity. It is
  modelled as that integer, with \<open>2^1024\<close> standing for \<open>Infinity\<close>: the integer read is
  rounded to the nearest double (ties to the even significand), so that numbers above
  \<open>2^53\<close> compare as they do in the program. \<open>String\<close> of a number is modelled where it is
  the decimal numeral of the integer, that is below \<open>2^53\<close>; above, JavaScript prints the
  shortest numeral that reads back as the same double (in exponent form from \<open>1e21\<close>),
  which the model does not follow.
\<close>

subsection \<open>\<open>v.split(/[.-]/)\<close>\<close>

definition isSeparator :: "char \<Rightarrow> bool" where
  "isSeparator c = (c = CHR ''.'' \<or> c = CHR ''-'')"

text \<open>Every separator ends a token; empty tokens are kept, and the empty string gives one
  empty token, as \<open>String.prototype.split\<close> does.\<close>

fun splitVersion :: "string \<Rightarrow> string list" where
  "splitVersion [] = [[]]"
| "splitVersion (c # cs) =
     (if isSeparator c then [] # splitVersion cs
      else (case splitVersion cs of
              [] \<Rightarrow> [[c]]
            | t # ts \<Rightarrow> (c # t) # ts))"

subsection \<open>\<open>parseInt(part)\<close> with no radix argument\<close>

text \<open>White space that \<open>parseInt\<close> skips at the start, among the code units below 256:
  TAB, LF, VT, FF, CR, SP and NBSP.\<close>

definition isWhiteSpace :: "char \<Rightarrow> bool" where
  "isWhiteSpace c = ((of_char c :: nat) \<in> {9, 10, 11, 12, 13, 32, 160})"

definition isDecDigit :: "char \<Rightarrow> bool" where
  "isDecDigit c = (48 \<le> (of_char c :: nat) \<and> (of_char c :: nat) \<le> 57)"

definition isHexDigit :: "char \<Rightarrow> bool" where
  "isHexDigit c = (isDecDigit c
     \<or> (65 \<le> (of_char c :: nat) \<and> (of_char c :: nat) \<le> 70)
     \<or> (97 \<le> (of_char c :: nat) \<and> (of_char c :: nat) \<le> 102))"

definition isRadixDigit :: "nat \<Rightarrow> char \<Rightarrow> bool" where
  "isRadixDigit R c = (if R = 16 then isHexDigit c else isDecDigit c)"

definition digitValue :: "char \<Rightarrow> nat" where
  "digitValue c =
     (let n = (of_char c :: nat) in
      if n \<le> 57 then n - 48 else if n \<le> 70 then n - 55 else n - 87)"

definition radixValue :: "nat \<Rightarrow> string \<Rightarrow> nat" where
  "radixValue R Z = foldl (\<lambda>n c. n * R + digitValue c) 0 Z"

text \<open>The number of bits of a natural number, and the double nearest to it: 53 bits of
  significand, a tie goes to the even significand, and what reaches \<open>2^1024\<close> (what has
  more than 1024 bits) is \<open>Infinity\<close>.\<close>

fun bitLength :: "nat \<Rightarrow> nat" where
  "bitLength n = (if n = 0 then 0 else Suc (bitLength (n div 2)))"

declare bitLength.simps [simp del]

definition infinity :: nat where
  "infinity = 2 ^ 1024"

definition roundToDouble :: "nat \<Rightarrow> nat" where
  "roundToDouble n =
     (if bitLength n \<le> 53 then n
      else
        let e = bitLength n - 53;
            q = n div 2 ^ e;
            r = n mod 2 ^ e;
            half = 2 ^ (e - 1);
            q' = (if half < r \<or> (r = half \<and> odd q) then q + 1 else q);
            d = q' * 2 ^ e
        in if 1024 < bitLength d then infinity else d)"

text \<open>The sign of the input and the rest after it.\<close>

fun stripSign :: "string \<Rightarrow> int \<times> string" where
  "stripSign [] = (1, [])"
| "stripSign (c # cs) =
     (if c = CHR ''-'' then (- 1, cs)
      else if c = CHR ''+'' then (1, cs)
      else (1, c # cs))"

text \<open>The radix and the rest after a \<open>0x\<close> or \<open>0X\<close> prefix.\<close>

fun stripPrefix :: "string \<Rightarrow> nat \<times> string" where
  "stripPrefix (a # b # cs) =
     (if a = CHR ''0'' \<and> (b = CHR ''x'' \<or> b = CHR ''X'') then (16, cs)
      else (10, a # b # cs))"
| "stripPrefix cs = (10, cs)"

text \<open>\<open>None\<close> is \<open>NaN\<close>: no digit of the radix stands where the number should start.\<close>

definition parseInt :: "string \<Rightarrow> int option" where
  "parseInt s =
     (let (sign, S1) = stripSign (dropWhile isWhiteSpace s);
          (R, S2) = stripPrefix S1;
          Z = takeWhile (isRadixDigit R) S2
      in if Z = [] then None else Some (sign * int (roundToDouble (radixValue R Z))))"

subsection \<open>\<open>parseVersion\<close>\<close>

text \<open>A part of a parsed version is a number or a string (\<open>typeof\<close> tells them apart).\<close>

datatype part = Num int | Str string

text \<open>\<open>part => { const num = parseInt(part); return isNaN(num) ? part : num; }\<close>\<close>

definition parsePart :: "string \<Rightarrow> part" where
  "parsePart p = (case parseInt p of None \<Rightarrow> Str p | Some num \<Rightarrow> Num num)"

definition parseVersion :: "string \<Rightarrow> part list" where
  "parseVersion v = map parsePart (splitVersion v)"

subsection \<open>The comparison loop\<close>

text \<open>\<open>parts[i] || 0\<close>: a missing part, the number 0 and the empty string are falsy.\<close>

definition partOrZero :: "part list \<Rightarrow> nat \<Rightarrow> part" where
  "partOrZero parts i =
     (if i < length parts then
        (case parts ! i of
           Num n \<Rightarrow> Num n
         | Str s \<Rightarrow> if s = [] then Num 0 else Str s)
      else Num 0)"

text \<open>\<open>String(x)\<close>: a number in decimal (\<open>Infinity\<close> by its name), a string as it is.\<close>

fun showNat :: "nat \<Rightarrow> string" where
  "showNat n =
     (if n < 10 then [char_of (48 + n)]
      else showNat (n div 10) @ [char_of (48 + n mod 10)])"

definition showMagnitude :: "nat \<Rightarrow> string" where
  "showMagnitude n = (if 1024 < bitLength n then ''Infinity'' else showNat n)"

definition showInt :: "int \<Rightarrow> string" where
  "showInt i =
     (if i < 0 then CHR ''-'' # showMagnitude (nat (- i)) else showMagnitude (nat i))"

fun toString :: "part \<Rightarrow> string" where
  "toString (Num n) = showInt n"
| "toString (Str s) = s"

text \<open>\<open><\<close> on strings: by code units, a proper prefix first.\<close>

fun strLess :: "string \<Rightarrow> string \<Rightarrow> bool" where
  "strLess [] [] = False"
| "strLess [] (y # ys) = True"
| "strLess (x # xs) [] = False"
| "strLess (x # xs) (y # ys) =
     ((of_char x :: nat) < of_char y \<or> (x = y \<and> strLess xs ys))"

text \<open>The \<open>for\<close> loop from index \<open>i\<close> on; the result is \<open>-1\<close>, \<open>0\<close> or \<open>1\<close>.\<close>

function compareFrom :: "part list \<Rightarrow> part list \<Rightarrow> nat \<Rightarrow> int" where
  "compareFrom currentParts latestParts i =
     (if i < max (length currentParts) (length latestParts) then
        (case (partOrZero currentParts i, partOrZero latestParts i) of
           (Num cur, Num lat) \<Rightarrow>
             if cur < lat then - 1
             else if cur > lat then 1
             else compareFrom currentParts latestParts (i + 1)
         | (cur, lat) \<Rightarrow>
             if strLess (toString cur) (toString lat) then - 1
             else if strLess (toString lat) (toString cur) then 1
             else compareFrom currentParts latestParts (i + 1))
      else 0)"
  by pat_completeness auto
termination
  by (relation "measure (\<lambda>(c, l, i). max (length c) (length l) - i)") auto

declare compareFrom.simps [simp del]

definition compareVersions :: "string \<Rightarrow> string \<Rightarrow> int" where
  "compareVersions current latest = compareFrom (parseVersion current) (parseVersion latest) 0"

section \<open>Data model\<close>

text \<open>A file of a catalog version (an entry of \<open>latestVersion.files\<close>).\<close>

record version_file =
  url :: string
  filename :: string
  primary :: bool
  file_size :: nat

text \<open>A version as the catalog returns it.\<close>

record catalog_version =
  version_id :: string
  version_number :: string
  game_versions :: "string list"
  loaders :: "string list"
  files :: "version_file list"

text \<open>An entry of \<open>mod-registry.json\<close>, keyed by file name. \<open>projectId\<close> may be missing.\<close>

record mod_info =
  info_name :: string
  info_version :: string
  info_projectId :: "string option"
  info_fileName :: string
  info_updatedAt :: nat
  info_versionId :: string
  info_gameVersions :: "string list"
  info_loaders :: "string list"

text \<open>A plain JavaScript object by its own properties, string keys with their values
  (the order of the list is the order of insertion; \<open>JSON.stringify\<close> puts keys that are
  array indices first, which no lookup sees).\<close>

type_synonym registry = "(string \<times> mod_info) list"

text \<open>\<open>delete registry[k]\<close> removes the own property.\<close>

definition objDelete :: "string \<Rightarrow> registry \<Rightarrow> registry" where
  "objDelete k r = filter (\<lambda>kv. fst kv \<noteq> k) r"

text \<open>\<open>registry[k] = v\<close> sets the own property or adds it last. The key \<open>__proto__\<close> is
  the exception: unless the object has an own property of that name (as \<open>JSON.parse\<close> can
  make one), the assignment goes to the setter of \<open>Object.prototype\<close>, which changes the
  prototype and adds no own property.\<close>

fun setOwn :: "string \<Rightarrow> mod_info \<Rightarrow> registry \<Rightarrow> registry" where
  "setOwn k v [] = [(k, v)]"
| "setOwn k v (kv # r) = (if fst kv = k then (k, v) # r else kv # setOwn k v r)"

definition objSet :: "string \<Rightarrow> mod_info \<Rightarrow> registry \<Rightarrow> registry" where
  "objSet k v r =
     (if k = ''__proto__'' \<and> map_of r k = None then r else setOwn k v r)"

text \<open>What \<open>readJson\<close> can return, any JSON document: an object (of registry entries), an
  array, \<open>null\<close>, or a number, string or boolean. An array is taken by what the update
  manager can do to it with file names as keys, which is nothing that \<open>JSON.stringify\<close>
  writes (a file name that is an array index or \<open>length\<close> is not modelled).\<close>

datatype json = JsonObject registry | JsonArray | JsonPrimitive | JsonNull

text \<open>An error object and its \<open>message\<close>.\<close>

datatype js_error = Error string | TypeError string

fun message :: "js_error \<Rightarrow> string" where
  "message (Error m) = m"
| "message (TypeError m) = m"

text \<open>\<open>registry[k]\<close>, for a key that is a file name: \<open>None\<close> is \<open>undefined\<close>, and an
  inherited property, which has no \<open>projectId\<close>, counts as absent.\<close>

fun getProperty :: "json \<Rightarrow> string \<Rightarrow> js_error + mod_info option" where
  "getProperty (JsonObject r) k = Inr (map_of r k)"
| "getProperty JsonArray k = Inr None"
| "getProperty JsonPrimitive k = Inr None"
| "getProperty JsonNull k = Inl (TypeError ''Cannot read properties of null'')"

text \<open>\<open>delete registry[k]\<close> and \<open>registry[k] = v\<close> in the strict mode of a class body.\<close>

fun deleteProperty :: "string \<Rightarrow> json \<Rightarrow> js_error + json" where
  "deleteProperty k (JsonObject r) = Inr (JsonObject (objDelete k r))"
| "deleteProperty k JsonArray = Inr JsonArray"
| "deleteProperty k JsonPrimitive = Inr JsonPrimitive"
| "deleteProperty k JsonNull = Inl (TypeError ''Cannot convert undefined or null to object'')"

fun setProperty :: "string \<Rightarrow> mod_info \<Rightarrow> json \<Rightarrow> js_error + json" where
  "setProperty k v (JsonObject r) = Inr (JsonObject (objSet k v r))"
| "setProperty k v JsonArray = Inr JsonArray"
| "setProperty k v JsonPrimitive = Inl (TypeError ''Cannot create property'')"
| "setProperty k v JsonNull = Inl (TypeError ''Cannot set properties of null'')"

text \<open>An installed mod, as \<open>getInstalledMods\<close> builds it.\<close>

record installed_mod =
  fileName :: string
  filePath :: string
  name :: string
  currentVersion :: string
  projectId :: string
  lastModified :: nat

text \<open>A report of \<open>checkForUpdates\<close>: \<open>{...mod, hasUpdate, latestVersion, canUpdate,
  updateSize}\<close> or \<open>{...mod, hasUpdate, error}\<close>; a field that is absent or \<open>null\<close> is
  \<open>None\<close>. \<open>updateMod\<close> takes such a report.\<close>

record update_info = installed_mod +
  hasUpdate :: bool
  latestVersion :: "catalog_version option"
  canUpdate :: "bool option"
  updateSize :: "nat option"
  error :: "string option"

text \<open>What \<open>updateMod\<close> returns (\<open>success: true\<close>).\<close>

record update_result =
  oldFile :: string
  newFile :: string
  newVersion :: string

text \<open>An entry of the result of \<open>updateMultipleMods\<close>: \<open>{mod, success: true, oldFile,
  newFile, newVersion}\<close> or \<open>{mod, success: false, error}\<close>.\<close>

record batch_result =
  batch_mod :: string
  success :: bool
  updated :: "update_result option"
  batch_error :: "string option"

text \<open>A profile as \<open>getProfile\<close> returns it; \<open>modsPath\<close> is \<open>null\<close> until the mods folder
  is configured.\<close>

record profile =
  profile_id :: string
  gameVersion :: string
  loader :: string
  path :: string
  modsPath :: "string option"

text \<open>The events of the \<open>EventEmitter\<close>, with their payloads.\<close>

datatype event =
    UpdateCheckStarted string nat
  | CheckingMod string nat nat
  | UpdateCheckCompleted string "update_info list" nat
  | BatchUpdateProgress nat nat string
  | UpdateStarted string
  | Downloading string nat
  | UpdateCompleted string string string
  | UpdateFailed string string
  | BatchUpdateCompleted "batch_result list"

section \<open>The world outside the update manager\<close>

text \<open>
  The file system, the network and the clock are state. A file holds a JSON document or
  bytes that are none. Every
  call that leaves the process (file system, HTTP, catalog) is recorded in the trace, next
  to the events emitted, so that the order of both can be read off; the clock advances by
  one at each such call, and \<open>faults\<close> says which of them fail from outside (a full disk,
  a lost connection) and with which error. A call that fails leaves the file system as it
  was.
\<close>

datatype file_content = Bytes string | Json json

record fsys =
  fs_files :: "(string \<times> file_content \<times> nat) list"
  fs_dirs :: "string list"

datatype call =
    PathExists string
  | EnsureDir string
  | Copy string string
  | Remove string
  | Move string string
  | Readdir string
  | Stat string
  | ReadJson string
  | WriteJson string
  | HttpGet string
  | WriteStream string
  | GetLatestVersion string string string

datatype action = Emit event | Call call

text \<open>A response of the server to a request for a file: the \<open>content-length\<close> header if
  there is one, the chunks of the body that arrive, and whether the stream ends after them
  (\<open>end\<close>) or the connection breaks off.\<close>

record response =
  content_length :: "nat option"
  chunks :: "string list"
  ended :: bool

record world =
  fs :: fsys
  network :: "string \<Rightarrow> response option"
  clock :: nat
  faults :: "nat \<Rightarrow> js_error option"
  trace :: "action list"
  isUpdating :: bool

subsection \<open>Paths (\<open>path.join\<close>, \<open>path.dirname\<close> on paths without dot segments)\<close>

definition path_join :: "string \<Rightarrow> string \<Rightarrow> string" where
  "path_join a b = a @ ''/'' @ b"

definition dirname :: "string \<Rightarrow> string" where
  "dirname p =
     (if CHR ''/'' \<in> set p then rev (tl (dropWhile (\<lambda>c. c \<noteq> CHR ''/'') (rev p)))
      else ''.'')"

definition basename :: "string \<Rightarrow> string" where
  "basename p = rev (takeWhile (\<lambda>c. c \<noteq> CHR ''/'') (rev p))"

subsection \<open>The file system\<close>

definition lookupFile :: "fsys \<Rightarrow> string \<Rightarrow> (file_content \<times> nat) option" where
  "lookupFile f p = map_of (fs_files f) p"

definition isDir :: "fsys \<Rightarrow> string \<Rightarrow> bool" where
  "isDir f p = (p \<in> set (fs_dirs f))"

definition existsPath :: "fsys \<Rightarrow> string \<Rightarrow> bool" where
  "existsPath f p = (lookupFile f p \<noteq> None \<or> isDir f p)"

definition mkdirs :: "string \<Rightarrow> fsys \<Rightarrow> fsys" where
  "mkdirs d f = (if isDir f d then f else f\<lparr>fs_dirs := fs_dirs f @ [d]\<rparr>)"

definition writeFile :: "string \<Rightarrow> file_content \<Rightarrow> nat \<Rightarrow> fsys \<Rightarrow> fsys" where
  "writeFile p c t f =
     f\<lparr>fs_files := filter (\<lambda>kv. fst kv \<noteq> p) (fs_files f) @ [(p, c, t)]\<rparr>"

definition under :: "string \<Rightarrow> string \<Rightarrow> bool" where
  "under d p = (p = d \<or> take (length d + 1) p = d @ ''/'')"

definition removeTree :: "string \<Rightarrow> fsys \<Rightarrow> fsys" where
  "removeTree p f =
     f\<lparr>fs_files := filter (\<lambda>kv. \<not> under p (fst kv)) (fs_files f),
       fs_dirs := filter (\<lambda>d. \<not> under p d) (fs_dirs f)\<rparr>"

definition listDir :: "string \<Rightarrow> fsys \<Rightarrow> string list" where
  "listDir d f =
     map basename (filter (\<lambda>p. dirname p = d) (map fst (fs_files f) @ fs_dirs f))"

section \<open>Asynchronous steps\<close>

text \<open>The promise of an \<open>async\<close> step resolves with a value, rejects with an error, or
  stays pending for ever; in each case the step leaves a world behind.\<close>

datatype 'a outcome = Resolved 'a | Rejected js_error | Pending

type_synonym 'a io = "world \<Rightarrow> 'a outcome \<times> world"

definition resolve :: "'a \<Rightarrow> 'a io" where
  "resolve x w = (Resolved x, w)"

definition throw :: "js_error \<Rightarrow> 'a io" where
  "throw e w = (Rejected e, w)"

text \<open>\<open>const x = await m; f(x)\<close>: a rejection of \<open>m\<close> skips \<open>f\<close>, and when \<open>m\<close> stays
  pending, \<open>f\<close> is never reached.\<close>

definition await :: "'a io \<Rightarrow> ('a \<Rightarrow> 'b io) \<Rightarrow> 'b io" where
  "await m f w =
     (case m w of
        (Resolved x, w') \<Rightarrow> f x w'
      | (Rejected e, w') \<Rightarrow> (Rejected e, w')
      | (Pending, w') \<Rightarrow> (Pending, w'))"

text \<open>\<open>try { m } catch (error) { h(error) }\<close>: only a rejection reaches the handler.\<close>

definition tryCatch :: "'a io \<Rightarrow> (js_error \<Rightarrow> 'a io) \<Rightarrow> 'a io" where
  "tryCatch m h w =
     (case m w of
        (Resolved x, w') \<Rightarrow> (Resolved x, w')
      | (Rejected e, w') \<Rightarrow> h e w'
      | (Pending, w') \<Rightarrow> (Pending, w'))"

text \<open>\<open>this.emit(...)\<close>: the listeners are not part of the update manager and are taken
  not to throw; the event is recorded.\<close>

definition emit :: "event \<Rightarrow> world \<Rightarrow> world" where
  "emit e w = w\<lparr>trace := trace w @ [Emit e]\<rparr>"

definition emitting :: "event \<Rightarrow> unit io" where
  "emitting e w = (Resolved (), emit e w)"

text \<open>A call that leaves the process and settles: recorded, one tick of the clock, and
  rejecting when the world makes it fail or when its own conditions are not met.\<close>

definition external :: "call \<Rightarrow> (world \<Rightarrow> js_error + 'a \<times> fsys) \<Rightarrow> 'a io" where
  "external c body w =
     (let w1 = w\<lparr>clock := Suc (clock w), trace := trace w @ [Call c]\<rparr> in
      case faults w (clock w) of
        Some e \<Rightarrow> (Rejected e, w1)
      | None \<Rightarrow>
          (case body w of
             Inl e \<Rightarrow> (Rejected e, w1)
           | Inr (x, f) \<Rightarrow> (Resolved x, w1\<lparr>fs := f\<rparr>)))"

subsection \<open>The calls of \<open>fs-extra\<close> and \<open>axios\<close> that the update manager makes\<close>

text \<open>\<open>fs.pathExists\<close> never rejects: an error of the underlying access check is
  \<open>false\<close>.\<close>

definition pathExists :: "string \<Rightarrow> bool io" where
  "pathExists p w =
     (Resolved (faults w (clock w) = None \<and> existsPath (fs w) p),
      w\<lparr>clock := Suc (clock w), trace := trace w @ [Call (PathExists p)]\<rparr>)"

definition ensureDir :: "string \<Rightarrow> unit io" where
  "ensureDir d =
     external (EnsureDir d)
       (\<lambda>w. if lookupFile (fs w) d \<noteq> None then Inl (Error ''EEXIST: file already exists'')
            else Inr ((), mkdirs d (fs w)))"

definition copy :: "string \<Rightarrow> string \<Rightarrow> unit io" where
  "copy src dest =
     external (Copy src dest)
       (\<lambda>w. case lookupFile (fs w) src of
               None \<Rightarrow> Inl (Error ''ENOENT: no such file or directory'')
             | Some (c, t) \<Rightarrow>
                 Inr ((), writeFile dest c (clock w) (mkdirs (dirname dest) (fs w))))"

definition remove :: "string \<Rightarrow> unit io" where
  "remove p = external (Remove p) (\<lambda>w. Inr ((), removeTree p (fs w)))"

definition move :: "string \<Rightarrow> string \<Rightarrow> unit io" where
  "move src dest =
     external (Move src dest)
       (\<lambda>w. if existsPath (fs w) dest then Inl (Error ''dest already exists.'')
            else (case lookupFile (fs w) src of
                    None \<Rightarrow> Inl (Error ''ENOENT: no such file or directory'')
                  | Some (c, t) \<Rightarrow>
                      Inr ((), writeFile dest c t
                                 (mkdirs (dirname dest) (removeTree src (fs w))))))"

definition readdir :: "string \<Rightarrow> string list io" where
  "readdir d =
     external (Readdir d)
       (\<lambda>w. if isDir (fs w) d then Inr (listDir d (fs w), fs w)
            else Inl (Error ''ENOENT: no such file or directory''))"

text \<open>\<open>(await fs.stat(p)).mtime\<close>\<close>

definition stat :: "string \<Rightarrow> nat io" where
  "stat p =
     external (Stat p)
       (\<lambda>w. case lookupFile (fs w) p of
               Some (c, t) \<Rightarrow> Inr (t, fs w)
             | None \<Rightarrow>
                 if isDir (fs w) p then Inr (0, fs w)
                 else Inl (Error ''ENOENT: no such file or directory''))"

definition readJson :: "string \<Rightarrow> json io" where
  "readJson p =
     external (ReadJson p)
       (\<lambda>w. case lookupFile (fs w) p of
               None \<Rightarrow> Inl (Error ''ENOENT: no such file or directory'')
             | Some (Bytes b, t) \<Rightarrow> Inl (Error ''Unexpected token in JSON'')
             | Some (Json j, t) \<Rightarrow> Inr (j, fs w))"

definition writeJson :: "string \<Rightarrow> json \<Rightarrow> unit io" where
  "writeJson p j =
     external (WriteJson p)
       (\<lambda>w. if isDir (fs w) (dirname p)
            then Inr ((), writeFile p (Json j) (clock w) (fs w))
            else Inl (Error ''ENOENT: no such file or directory''))"

definition httpGet :: "string \<Rightarrow> response io" where
  "httpGet u =
     external (HttpGet u)
       (\<lambda>w. case network w u of
               None \<Rightarrow> Inl (Error ''Network Error'')
             | Some r \<Rightarrow> Inr (r, fs w))"

text \<open>The body of a response is complete when the stream ends and, if the length was
  announced, all of it has arrived; a body cut short has no \<open>end\<close>.\<close>

definition bodyComplete :: "response \<Rightarrow> bool" where
  "bodyComplete resp =
     (ended resp \<and>
      (case content_length resp of
         None \<Rightarrow> True
       | Some n \<Rightarrow> length (concat (chunks resp)) = n))"

text \<open>\<open>response.data.pipe(writer)\<close> with \<open>writer.on('finish', resolve)\<close> and
  \<open>writer.on('error', reject)\<close>: an error of the write stream rejects; the write stream
  finishes, and the promise resolves, only when the response stream ends. When the
  response stream breaks off, nothing ends the write stream and nothing listens to the
  response stream, so the promise stays pending, with the chunks that arrived in the
  file.\<close>

definition pipeToFile :: "response \<Rightarrow> string \<Rightarrow> unit io" where
  "pipeToFile resp dest w =
     (let w1 = w\<lparr>clock := Suc (clock w), trace := trace w @ [Call (WriteStream dest)]\<rparr> in
      case faults w (clock w) of
        Some e \<Rightarrow> (Rejected e, w1)
      | None \<Rightarrow>
          if \<not> isDir (fs w) (dirname dest)
          then (Rejected (Error ''ENOENT: no such file or directory''), w1)
          else
            let w2 = w1\<lparr>fs := writeFile dest (Bytes (concat (chunks resp))) (clock w) (fs w)\<rparr>
            in if bodyComplete resp then (Resolved (), w2) else (Pending, w2))"

text \<open>A computation inside the process that returns or throws.\<close>

definition evaluate :: "js_error + 'a \<Rightarrow> 'a io" where
  "evaluate r = (case r of Inl e \<Rightarrow> throw e | Inr x \<Rightarrow> resolve x)"

text \<open>\<open>Date.now()\<close> and \<open>new Date()\<close> read the clock.\<close>

definition now :: "nat io" where
  "now w = (Resolved (clock w), w)"

subsection \<open>The collaborators handed to the constructor\<close>

text \<open>\<open>this.api\<close> and \<open>this.profileManager\<close>. The catalog answers a query with a version,
  with nothing, or with an error; \<open>getProfile\<close> answers \<open>null\<close> for an unknown profile.\<close>

record manager =
  api_getLatestVersion :: "string \<Rightarrow> string \<Rightarrow> string \<Rightarrow> js_error + catalog_version option"
  getProfile :: "string \<Rightarrow> profile option"
  getProfilePath :: "string \<Rightarrow> string"

definition getLatestVersion ::
  "manager \<Rightarrow> string \<Rightarrow> string \<Rightarrow> string \<Rightarrow> catalog_version option io" where
  "getLatestVersion mgr pid gv ld =
     external (GetLatestVersion pid gv ld)
       (\<lambda>w. case api_getLatestVersion mgr pid gv ld of
               Inl e \<Rightarrow> Inl e
             | Inr v \<Rightarrow> Inr (v, fs w))"

section \<open>The update manager (\<open>class UpdateManager\<close>)\<close>

subsection \<open>Helpers of the JavaScript library\<close>

definition startsWith :: "string \<Rightarrow> string \<Rightarrow> bool" where
  "startsWith f pre = (take (length pre) f = pre)"

definition endsWith :: "string \<Rightarrow> string \<Rightarrow> bool" where
  "endsWith f suf = (length suf \<le> length f \<and> drop (length f - length suf) f = suf)"

text \<open>\<open>Array.prototype.sort()\<close> with no comparator: ascending by \<open><\<close> on strings.\<close>

fun insertSorted :: "string \<Rightarrow> string list \<Rightarrow> string list" where
  "insertSorted x [] = [x]"
| "insertSorted x (y # ys) = (if strLess y x then y # insertSorted x ys else x # y # ys)"

definition jsSort :: "string list \<Rightarrow> string list" where
  "jsSort xs = foldr insertSorted xs []"

text \<open>\<open>{...mod, hasUpdate: h, latestVersion: l, canUpdate: c, updateSize: u, error: e}\<close>\<close>

definition spread ::
  "installed_mod \<Rightarrow> bool \<Rightarrow> catalog_version option \<Rightarrow> bool option \<Rightarrow> nat option
     \<Rightarrow> string option \<Rightarrow> update_info" where
  "spread m h l c u e =
     \<lparr>fileName = fileName m, filePath = filePath m, name = name m,
      currentVersion = currentVersion m, projectId = projectId m,
      lastModified = lastModified m,
      hasUpdate = h, latestVersion = l, canUpdate = c, updateSize = u, error = e\<rparr>"

subsection \<open>\<open>loadModRegistry\<close> and \<open>updateModRegistry\<close>\<close>

definition registryPath :: "manager \<Rightarrow> string \<Rightarrow> string" where
  "registryPath mgr profileId = path_join (getProfilePath mgr profileId) ''mod-registry.json''"

definition loadModRegistry :: "manager \<Rightarrow> string \<Rightarrow> json io" where
  "loadModRegistry mgr profileId =
     await (pathExists (registryPath mgr profileId)) (\<lambda>found.
       if found then readJson (registryPath mgr profileId) else resolve (JsonObject []))"

definition updateModRegistry :: "manager \<Rightarrow> string \<Rightarrow> string \<Rightarrow> mod_info \<Rightarrow> unit io" where
  "updateModRegistry mgr profileId oldFileName modInfo =
     await (loadModRegistry mgr profileId) (\<lambda>registry.
     await (evaluate
              (if oldFileName \<noteq> info_fileName modInfo
               then deleteProperty oldFileName registry else Inr registry)) (\<lambda>registry1.
     await (evaluate (setProperty (info_fileName modInfo) modInfo registry1)) (\<lambda>registry2.
     writeJson (registryPath mgr profileId) registry2)))"

subsection \<open>\<open>getInstalledMods\<close>\<close>

text \<open>The \<open>for (const file of jarFiles)\<close> loop; the list it resolves with is
  \<open>installedMods\<close> after the loop.\<close>

primrec installedLoop :: "string \<Rightarrow> json \<Rightarrow> string list \<Rightarrow> installed_mod list io" where
  "installedLoop modsDir modRegistry [] = resolve []"
| "installedLoop modsDir modRegistry (file # rest) =
     (case getProperty modRegistry file of
        Inl e \<Rightarrow> throw e
      | Inr None \<Rightarrow> installedLoop modsDir modRegistry rest
      | Inr (Some modInfo) \<Rightarrow>
          (case info_projectId modInfo of
             None \<Rightarrow> installedLoop modsDir modRegistry rest
           | Some pid \<Rightarrow>
               if pid = [] then installedLoop modsDir modRegistry rest
               else
                 await (stat (path_join modsDir file)) (\<lambda>mtime.
                 await (installedLoop modsDir modRegistry rest) (\<lambda>installedMods.
                 resolve
                   (\<lparr>fileName = file, filePath = path_join modsDir file,
                     name = info_name modInfo, currentVersion = info_version modInfo,
                     projectId = pid, lastModified = mtime\<rparr> # installedMods)))))"

text \<open>\<open>profile.modsPath\<close> is \<open>null\<close> until the mods folder is configured, and
  \<open>fs.pathExists(null)\<close> is \<open>false\<close>.\<close>

definition getInstalledMods :: "manager \<Rightarrow> profile \<Rightarrow> installed_mod list io" where
  "getInstalledMods mgr profile =
     (case modsPath profile of
        None \<Rightarrow> resolve []
      | Some modsDir \<Rightarrow>
          await (pathExists modsDir) (\<lambda>found.
            if \<not> found then resolve []
            else
              await (loadModRegistry mgr (profile_id profile)) (\<lambda>modRegistry.
              await (readdir modsDir) (\<lambda>entries.
              installedLoop modsDir modRegistry
                (filter (\<lambda>f. endsWith f ''.jar'') entries)))))"

subsection \<open>\<open>checkForUpdates\<close>\<close>

text \<open>The body of the \<open>for\<close> loop, a \<open>try\<close> with its \<open>catch\<close>: the report it pushes.\<close>

definition checkMod :: "manager \<Rightarrow> profile \<Rightarrow> nat \<Rightarrow> nat \<Rightarrow> installed_mod \<Rightarrow> update_info io" where
  "checkMod mgr profile len i mod' =
     tryCatch
       (await (emitting (CheckingMod (name mod') (i + 1) len)) (\<lambda>_.
        await (getLatestVersion mgr (projectId mod') (gameVersion profile) (loader profile))
          (\<lambda>latest.
             resolve
               (case latest of
                  None \<Rightarrow> spread mod' False None (Some False) None None
                | Some lv \<Rightarrow>
                    if compareVersions (currentVersion mod') (version_number lv) < 0
                    then spread mod' True (Some lv) (Some True)
                           (Some (case files lv of [] \<Rightarrow> 0 | f # _ \<Rightarrow> file_size f)) None
                    else spread mod' False None (Some False) None None))))
       (\<lambda>err. resolve (spread mod' False None None None (Some (message err))))"

primrec checkLoop ::
  "manager \<Rightarrow> profile \<Rightarrow> nat \<Rightarrow> nat \<Rightarrow> installed_mod list \<Rightarrow> update_info list io" where
  "checkLoop mgr profile len i [] = resolve []"
| "checkLoop mgr profile len i (mod' # rest) =
     await (checkMod mgr profile len i mod') (\<lambda>updateInfo.
     await (checkLoop mgr profile len (i + 1) rest) (\<lambda>updateResults.
     resolve (updateInfo # updateResults)))"

text \<open>With an unknown profile, \<open>profile\<close> is \<open>null\<close> and \<open>profile.modsPath\<close> throws.\<close>

definition checkForUpdates :: "manager \<Rightarrow> string \<Rightarrow> update_info list io" where
  "checkForUpdates mgr profileId =
     (case getProfile mgr profileId of
        None \<Rightarrow> throw (TypeError ''Cannot read properties of null'')
      | Some profile \<Rightarrow>
          await (getInstalledMods mgr profile) (\<lambda>installedMods.
          await (emitting (UpdateCheckStarted profileId (length installedMods))) (\<lambda>_.
          await (checkLoop mgr profile (length installedMods) 0 installedMods)
            (\<lambda>updateResults.
          await (emitting (UpdateCheckCompleted profileId updateResults
                   (length (filter hasUpdate updateResults)))) (\<lambda>_.
          resolve updateResults)))))"

subsection \<open>\<open>createBackup\<close> and \<open>restoreFromBackup\<close>\<close>

definition backupDir :: "profile \<Rightarrow> string" where
  "backupDir profile = path_join (path_join (path profile) ''backups'') ''mods''"

definition createBackup :: "update_info \<Rightarrow> profile \<Rightarrow> string io" where
  "createBackup mod' profile =
     await (ensureDir (backupDir profile)) (\<lambda>_.
     await now (\<lambda>t.
       let backupName = fileName mod' @ ''.backup.'' @ showNat t;
           backupPath = path_join (backupDir profile) backupName
       in await (copy (filePath mod') backupPath) (\<lambda>_. resolve backupPath)))"

definition restoreFromBackup :: "update_info \<Rightarrow> profile \<Rightarrow> unit io" where
  "restoreFromBackup mod' profile =
     await (pathExists (backupDir profile)) (\<lambda>found.
       if \<not> found then resolve ()
       else
         await (readdir (backupDir profile)) (\<lambda>backups.
           let modBackups =
                 rev (jsSort (filter (\<lambda>f. startsWith f (fileName mod' @ ''.backup.'')) backups))
           in case modBackups of
                [] \<Rightarrow> resolve ()
              | latestBackup # _ \<Rightarrow>
                  copy (path_join (backupDir profile) latestBackup) (filePath mod')))"

subsection \<open>\<open>downloadWithProgress\<close>\<close>

text \<open>The \<open>data\<close> events of the response: \<open>onProgress(Math.round(progress))\<close> for each
  chunk that arrives, with \<open>progress = totalSize ? downloadedSize / totalSize * 100 : 0\<close>.\<close>

primrec onData ::
  "nat option \<Rightarrow> (nat \<Rightarrow> world \<Rightarrow> world) \<Rightarrow> nat \<Rightarrow> string list \<Rightarrow> world \<Rightarrow> world" where
  "onData totalSize onProgress downloadedSize [] w = w"
| "onData totalSize onProgress downloadedSize (chunk # rest) w =
     (let downloaded = downloadedSize + length chunk;
          progress =
            (case totalSize of
               None \<Rightarrow> 0
             | Some t \<Rightarrow> if t = 0 then 0 else (200 * downloaded + t) div (2 * t))
      in onData totalSize onProgress downloaded rest (onProgress progress w))"

definition downloadWithProgress ::
  "string \<Rightarrow> string \<Rightarrow> (nat \<Rightarrow> world \<Rightarrow> world) \<Rightarrow> unit io" where
  "downloadWithProgress address destination onProgress =
     await (httpGet address) (\<lambda>resp.
     await (ensureDir (dirname destination)) (\<lambda>_.
     await (\<lambda>w. (Resolved (), onData (content_length resp) onProgress 0 (chunks resp) w))
       (\<lambda>_.
     pipeToFile resp destination)))"

subsection \<open>\<open>updateMod\<close>\<close>

text \<open>\<open>files.find(f => f.primary) || files[0]\<close>; \<open>None\<close> is \<open>undefined\<close>.\<close>

definition chooseDownload :: "version_file list \<Rightarrow> version_file option" where
  "chooseDownload fs' =
     (case find primary fs' of
        Some f \<Rightarrow> Some f
      | None \<Rightarrow> (case fs' of [] \<Rightarrow> None | f # _ \<Rightarrow> Some f))"

text \<open>The \<open>try\<close> block of \<open>updateMod\<close>: backup, download, swap, commit, and the
  \<open>updateCompleted\<close> event.\<close>

definition updateSteps :: "manager \<Rightarrow> update_info \<Rightarrow> profile \<Rightarrow> catalog_version \<Rightarrow> update_result io" where
  "updateSteps mgr mod' profile latest =
     await (createBackup mod' profile) (\<lambda>_.
       case chooseDownload (files latest) of
         None \<Rightarrow> throw (TypeError ''Cannot read properties of undefined'')
       | Some downloadFile \<Rightarrow>
           let tempPath = path_join (path_join (path profile) ''temp'') (filename downloadFile);
               newPath = path_join (dirname (filePath mod')) (filename downloadFile)
           in
           await (downloadWithProgress (url downloadFile) tempPath
                    (\<lambda>progress. emit (Downloading (name mod') progress))) (\<lambda>_.
           await (pathExists (filePath mod')) (\<lambda>found.
           await (if found then remove (filePath mod') else resolve ()) (\<lambda>_.
           await (move tempPath newPath) (\<lambda>_.
           await now (\<lambda>t.
           await (updateModRegistry mgr (profile_id profile) (fileName mod')
                    \<lparr>info_name = name mod',
                     info_version = version_number latest,
                     info_projectId = Some (projectId mod'),
                     info_fileName = filename downloadFile,
                     info_updatedAt = t,
                     info_versionId = version_id latest,
                     info_gameVersions = game_versions latest,
                     info_loaders = loaders latest\<rparr>) (\<lambda>_.
           await (emitting (UpdateCompleted (name mod') (currentVersion mod')
                    (version_number latest))) (\<lambda>_.
           resolve \<lparr>oldFile = fileName mod', newFile = filename downloadFile,
                    newVersion = version_number latest\<rparr>))))))))"

definition updateMod :: "manager \<Rightarrow> update_info \<Rightarrow> profile \<Rightarrow> update_result io" where
  "updateMod mgr mod' profile =
     (case latestVersion mod' of
        None \<Rightarrow> throw (Error ''No update available'')
      | Some latest \<Rightarrow>
          await (emitting (UpdateStarted (name mod'))) (\<lambda>_.
          tryCatch (updateSteps mgr mod' profile latest) (\<lambda>err.
            await (emitting (UpdateFailed (name mod') (message err))) (\<lambda>_.
            await (restoreFromBackup mod' profile) (\<lambda>_.
            throw err)))))"

subsection \<open>\<open>updateMultipleMods\<close>\<close>





section \<open>Notions used in the statements\<close>




text \<open>What a run added to the trace.\<close>

definition actionsSince :: "world \<Rightarrow> world \<Rightarrow> action list" where
  "actionsSince w w' = drop (length (trace w)) (trace w')"

fun isEmit :: "action \<Rightarrow> bool" where
  "isEmit (Emit e) = True"
| "isEmit (Call c) = False"

text \<open>The two events that end an update: \<open>updateCompleted\<close> and \<open>updateFailed\<close>.\<close>

fun isTerminal :: "action \<Rightarrow> bool" where
  "isTerminal (Emit (UpdateCompleted m old new)) = True"
| "isTerminal (Emit (UpdateFailed m e)) = True"
| "isTerminal a = False"

text \<open>A step is quiet when it adds neither of them to the trace, whatever its outcome,
  and does not turn the clock back; it is finishing with an action when it adds that
  action last if it resolves, and is quiet otherwise.\<close>

definition quiet :: "'a io \<Rightarrow> bool" where
  "quiet m =
     (\<forall>w. clock w \<le> clock (snd (m w))
        \<and> (\<exists>xs. trace (snd (m w)) = trace w @ xs \<and> filter isTerminal xs = []))"


text \<open>A step settles when its promise never stays pending.\<close>

definition settles :: "'a io \<Rightarrow> bool" where
  "settles m = (\<forall>w. fst (m w) \<noteq> Pending)"



text \<open>The installed mod a report is about: the fields that \<open>...mod\<close> copied.\<close>

definition modOf :: "update_info \<Rightarrow> installed_mod" where
  "modOf r =
     \<lparr>fileName = fileName r, filePath = filePath r, name = name r,
      currentVersion = currentVersion r, projectId = projectId r,
      lastModified = lastModified r\<rparr>"

text \<open>The world in which the loop of \<open>checkForUpdates\<close> reaches the mod at index \<open>k\<close>,
  when it started in \<open>w\<close>, and the answer of the catalog to the query made there.\<close>

definition checkStateBefore ::
  "manager \<Rightarrow> profile \<Rightarrow> installed_mod list \<Rightarrow> nat \<Rightarrow> world \<Rightarrow> world" where
  "checkStateBefore mgr profile mods k w =
     snd (checkLoop mgr profile (length mods) 0 (take k mods) w)"

definition catalogAnswer ::
  "manager \<Rightarrow> profile \<Rightarrow> installed_mod list \<Rightarrow> nat \<Rightarrow> world
     \<Rightarrow> catalog_version option outcome" where
  "catalogAnswer mgr profile mods k w =
     fst (getLatestVersion mgr (projectId (mods ! k)) (gameVersion profile) (loader profile)
            (emit (CheckingMod (name (mods ! k)) (k + 1) (length mods))
               (checkStateBefore mgr profile mods k w)))"



section \<open>Example inputs\<close>

text \<open>
  A profile with two tracked mods. The catalog knows a newer version of the first, whose
  primary file is the second of its two files, and answers the query for the other mod
  with an error.
\<close>

definition ex_profile :: profile where
  "ex_profile =
     \<lparr>profile_id = ''default'', gameVersion = ''1.20.1'', loader = ''fabric'',
      path = ''/p'', modsPath = Some ''/mods''\<rparr>"

definition ex_version :: catalog_version where
  "ex_version =
     \<lparr>version_id = ''v5'', version_number = ''0.5.0'', game_versions = [''1.20.1''],
      loaders = [''fabric''],
      files =
        [\<lparr>url = ''http://cdn/s-src.jar'', filename = ''sodium-0.5-sources.jar'',
          primary = False, file_size = 10\<rparr>,
         \<lparr>url = ''http://cdn/s.jar'', filename = ''sodium-0.5.jar'',
          primary = True, file_size = 20\<rparr>]\<rparr>"

definition ex_manager :: manager where
  "ex_manager =
     \<lparr>api_getLatestVersion =
        (\<lambda>p g l. if p = ''AANobbMI'' then Inr (Some ex_version)
                 else Inl (Error ''Failed to get latest version: 404'')),
      getProfile = (\<lambda>i. if i = ''default'' then Some ex_profile else None),
      getProfilePath = (\<lambda>i. ''/p'')\<rparr>"

definition ex_registry :: registry where
  "ex_registry =
     [(''sodium-0.4.jar'',
       \<lparr>info_name = ''Sodium'', info_version = ''0.4.0'', info_projectId = Some ''AANobbMI'',
        info_fileName = ''sodium-0.4.jar'', info_updatedAt = 0, info_versionId = ''v4'',
        info_gameVersions = [], info_loaders = []\<rparr>),
      (''other.jar'',
       \<lparr>info_name = ''Other'', info_version = ''1.0'', info_projectId = Some ''zzz'',
        info_fileName = ''other.jar'', info_updatedAt = 0, info_versionId = ''v1'',
        info_gameVersions = [], info_loaders = []\<rparr>)]"

definition ex_world :: world where
  "ex_world =
     \<lparr>fs = \<lparr>fs_files = [(''/mods/sodium-0.4.jar'', Bytes ''old'', 1),
                        (''/mods/other.jar'', Bytes ''x'', 1),
                        (''/p/mod-registry.json'', Json (JsonObject ex_registry), 1)],
             fs_dirs = [''/mods'', ''/p'']\<rparr>,
      network =
        (\<lambda>u. if u = ''http://cdn/s.jar''
             then Some \<lparr>content_length = Some 6, chunks = [''new'', ''jar''], ended = True\<rparr>
             else None),
      clock = 100, faults = (\<lambda>n. None), trace = [], isUpdating = False\<rparr>"

definition ex_sodium :: installed_mod where
  "ex_sodium =
     \<lparr>fileName = ''sodium-0.4.jar'', filePath = ''/mods/sodium-0.4.jar'', name = ''Sodium'',
      currentVersion = ''0.4.0'', projectId = ''AANobbMI'', lastModified = 1\<rparr>"

definition ex_other :: installed_mod where
  "ex_other =
     \<lparr>fileName = ''other.jar'', filePath = ''/mods/other.jar'', name = ''Other'',
      currentVersion = ''1.0'', projectId = ''zzz'', lastModified = 1\<rparr>"

text \<open>The two reports that \<open>checkForUpdates\<close> makes of them.\<close>

definition ex_report :: update_info where
  "ex_report = spread ex_sodium True (Some ex_version) (Some True) (Some 10) None"

definition ex_failed_report :: update_info where
  "ex_failed_report =
     spread ex_other False None None None (Some ''Failed to get latest version: 404'')"







text \<open>A profile whose mods directory is gone.\<close>

definition ex_profile_gone :: profile where
  "ex_profile_gone = ex_profile\<lparr>modsPath := Some ''/gone''\<rparr>"

definition ex_manager_gone :: manager where
  "ex_manager_gone = ex_manager\<lparr>getProfile := (\<lambda>i. Some ex_profile_gone)\<rparr>"

section \<open>Properties of the version comparison\<close>

lemma strLess_asym: "strLess a b \<Longrightarrow> \<not> strLess b a"
  by (induction a b rule: strLess.induct) auto













text \<open>What \<open>split(/[.-]/)\<close> returns: the tokens hold no separator, there is one more token
  than separators, and the tokens in order are the string without its separators.\<close>

lemma splitVersion_tokens: "list_all (\<lambda>t. \<not> list_ex isSeparator t) (splitVersion v)"
  by (induction v) (auto split: list.splits)

lemma splitVersion_concat: "concat (splitVersion v) = filter (\<lambda>c. \<not> isSeparator c) v"
  by (induction v) (auto split: list.splits)

lemma splitVersion_length: "length (splitVersion v) = Suc (length (filter isSeparator v))"
  by (induction v) (auto split: list.splits)




lemma compareFrom_antisym: "compareFrom a b i = - compareFrom b a i"
proof (induction a b i rule: compareFrom.induct)
  case (1 a b i)
  show ?case
  proof (cases "i < max (length a) (length b)")
    case False
    then show ?thesis
      by (simp add: max.commute compareFrom.simps[of a b i] compareFrom.simps[of b a i])
  next
    case True
    then have swapped: "i < max (length b) (length a)" by (simp add: max.commute)
    show ?thesis
      apply (subst compareFrom.simps[of a b i])
      apply (subst compareFrom.simps[of b a i])
      using True swapped 1
      by (auto split: part.splits dest: strLess_asym)
  qed
qed

text \<open>
  Claim C9. \<open>compareVersions(a, b) == -compareVersions(b, a)\<close> for all version strings, and
  \<open>compareVersions(v, v) == 0\<close>.
\<close>

theorem compareVersions_antisymmetric:
  "compareVersions a b = - compareVersions b a \<and> compareVersions v v = 0"
proof
  show "compareVersions a b = - compareVersions b a"
    unfolding compareVersions_def by (rule compareFrom_antisym)
  have "compareVersions v v = - compareVersions v v"
    unfolding compareVersions_def by (rule compareFrom_antisym)
  then show "compareVersions v v = 0" by simp
qed

section \<open>Properties of the update manager\<close>

subsection \<open>The example inputs\<close>



subsection \<open>What the steps add to the trace\<close>

text \<open>Rules for \<open>quiet\<close>: the calls that leave the process are quiet, and so is every
  composition of quiet steps.\<close>

lemma quietI:
  assumes "\<And>w. clock w \<le> clock (snd (m w))"
    and "\<And>w. \<exists>xs. trace (snd (m w)) = trace w @ xs \<and> filter isTerminal xs = []"
  shows "quiet m"
  using assms by (simp add: quiet_def)

lemma quietD:
  "quiet m \<Longrightarrow> \<exists>xs. trace (snd (m w)) = trace w @ xs \<and> filter isTerminal xs = []"
  by (simp add: quiet_def)

lemma quiet_clock: "quiet m \<Longrightarrow> clock w \<le> clock (snd (m w))"
  by (simp add: quiet_def)



lemma quiet_resolve: "quiet (resolve x)"
  by (simp add: quiet_def resolve_def)

lemma quiet_throw: "quiet (throw e)"
  by (simp add: quiet_def throw_def)

lemma quiet_evaluate: "quiet (evaluate r)"
  by (cases r) (simp_all add: evaluate_def quiet_throw quiet_resolve)

lemma quiet_now: "quiet now"
  by (simp add: quiet_def now_def)

lemma quiet_emitting: "\<not> isTerminal (Emit e) \<Longrightarrow> quiet (emitting e)"
  by (simp add: quiet_def emitting_def emit_def)

lemma quiet_external: "quiet (external c body)"
  by (auto simp: quiet_def external_def Let_def split: option.splits sum.splits)

lemma quiet_pathExists: "quiet (pathExists p)"
  by (simp add: quiet_def pathExists_def)

lemma quiet_pipeToFile: "quiet (pipeToFile resp dest)"
  by (auto simp: quiet_def pipeToFile_def Let_def split: option.splits)

lemma quiet_await:
  assumes "quiet m" and "\<And>x. quiet (f x)"
  shows "quiet (await m f)"
proof (rule quietI)
  fix w
  obtain r w1 where mw: "m w = (r, w1)" by (cases "m w")
  from quietD[OF assms(1), of w] mw obtain xs where
    xs: "trace w1 = trace w @ xs" "filter isTerminal xs = []" by auto
  from quiet_clock[OF assms(1), of w] mw have c1: "clock w \<le> clock w1" by simp
  show "\<exists>xs. trace (snd (await m f w)) = trace w @ xs \<and> filter isTerminal xs = []"
  proof (cases r)
    case (Resolved x)
    from quietD[OF assms(2), of x w1] obtain ys where
      "trace (snd (f x w1)) = trace w1 @ ys" "filter isTerminal ys = []" by auto
    with Resolved mw xs show ?thesis by (simp add: await_def)
  next
    case (Rejected e)
    with mw xs show ?thesis by (simp add: await_def)
  next
    case Pending
    with mw xs show ?thesis by (simp add: await_def)
  qed
  show "clock w \<le> clock (snd (await m f w))"
  proof (cases r)
    case (Resolved x)
    from quiet_clock[OF assms(2), of w1 x] have "clock w1 \<le> clock (snd (f x w1))" .
    with Resolved mw c1 show ?thesis by (simp add: await_def)
  next
    case (Rejected e)
    with mw c1 show ?thesis by (simp add: await_def)
  next
    case Pending
    with mw c1 show ?thesis by (simp add: await_def)
  qed
qed

lemma quiet_tryCatch:
  assumes "quiet m" and "\<And>e. quiet (h e)"
  shows "quiet (tryCatch m h)"
proof (rule quietI)
  fix w
  obtain r w1 where mw: "m w = (r, w1)" by (cases "m w")
  from quietD[OF assms(1), of w] mw obtain xs where
    xs: "trace w1 = trace w @ xs" "filter isTerminal xs = []" by auto
  from quiet_clock[OF assms(1), of w] mw have c1: "clock w \<le> clock w1" by simp
  show "\<exists>xs. trace (snd (tryCatch m h w)) = trace w @ xs \<and> filter isTerminal xs = []"
  proof (cases r)
    case (Resolved x)
    with mw xs show ?thesis by (simp add: tryCatch_def)
  next
    case (Rejected e)
    from quietD[OF assms(2), of e w1] obtain ys where
      "trace (snd (h e w1)) = trace w1 @ ys" "filter isTerminal ys = []" by auto
    with Rejected mw xs show ?thesis by (simp add: tryCatch_def)
  next
    case Pending
    with mw xs show ?thesis by (simp add: tryCatch_def)
  qed
  show "clock w \<le> clock (snd (tryCatch m h w))"
  proof (cases r)
    case (Resolved x)
    with mw c1 show ?thesis by (simp add: tryCatch_def)
  next
    case (Rejected e)
    from quiet_clock[OF assms(2), of w1 e] have "clock w1 \<le> clock (snd (h e w1))" .
    with Rejected mw c1 show ?thesis by (simp add: tryCatch_def)
  next
    case Pending
    with mw c1 show ?thesis by (simp add: tryCatch_def)
  qed
qed

lemma quiet_ensureDir: "quiet (ensureDir d)"
  by (simp add: ensureDir_def quiet_external)

lemma quiet_copy: "quiet (copy a b)"
  by (simp add: copy_def quiet_external)

lemma quiet_remove: "quiet (remove a)"
  by (simp add: remove_def quiet_external)

lemma quiet_move: "quiet (move a b)"
  by (simp add: move_def quiet_external)

lemma quiet_readdir: "quiet (readdir a)"
  by (simp add: readdir_def quiet_external)

lemma quiet_stat: "quiet (stat a)"
  by (simp add: stat_def quiet_external)

lemma quiet_readJson: "quiet (readJson a)"
  by (simp add: readJson_def quiet_external)

lemma quiet_writeJson: "quiet (writeJson a r)"
  by (simp add: writeJson_def quiet_external)

lemma quiet_httpGet: "quiet (httpGet a)"
  by (simp add: httpGet_def quiet_external)

lemma quiet_getLatestVersion: "quiet (getLatestVersion mgr a b c)"
  by (simp add: getLatestVersion_def quiet_external)

lemmas quiet_calls = quiet_ensureDir quiet_copy quiet_remove quiet_move quiet_readdir quiet_stat
  quiet_readJson quiet_writeJson quiet_httpGet quiet_pipeToFile quiet_getLatestVersion
  quiet_pathExists quiet_now quiet_resolve quiet_throw quiet_evaluate


lemma quiet_restoreFromBackup: "quiet (restoreFromBackup m p)"
  unfolding restoreFromBackup_def Let_def
  by (intro quiet_await quiet_calls) (auto intro!: quiet_await quiet_calls split: list.splits)













lemma settles_throw: "settles (throw e)"
  by (simp add: settles_def throw_def)

lemma settles_external: "settles (external c body)"
  by (auto simp: settles_def external_def Let_def split: option.splits sum.splits)


lemma settles_emitting: "settles (emitting e)"
  by (simp add: settles_def emitting_def)


lemma settles_tryCatch:
  assumes "settles m" and "\<And>e. settles (h e)"
  shows "settles (tryCatch m h)"
  unfolding settles_def
proof
  fix w
  obtain r w1 where mw: "m w = (r, w1)" by (cases "m w")
  from assms(1) have "fst (m w) \<noteq> Pending" by (simp add: settles_def)
  with mw have "r \<noteq> Pending" by simp
  moreover have "fst (h e w1) \<noteq> Pending" for e using assms(2)[of e] by (simp add: settles_def)
  ultimately show "fst (tryCatch m h w) \<noteq> Pending"
    using mw by (cases r) (simp_all add: tryCatch_def)
qed



lemma settles_getLatestVersion: "settles (getLatestVersion mgr a b c)"
  by (simp add: getLatestVersion_def settles_external)



subsection \<open>\<open>updateMod\<close>\<close>

text \<open>
  Claim C6. Called with a report whose \<open>latestVersion\<close> is \<open>null\<close>, \<open>updateMod\<close> rejects with
  the error \<open>No update available\<close> and leaves the world as it was: nothing is added to the
  trace (no event, no call to the file system or the network), and the file system, with
  the registry in it, is unchanged.
\<close>

theorem updateMod_no_update:
  "latestVersion mod' = None \<Longrightarrow>
     updateMod mgr mod' profile w = (Rejected (Error ''No update available''), w)"
  by (simp add: updateMod_def throw_def)

text \<open>The report of the mod whose catalog query failed has no \<open>latestVersion\<close>.\<close>

theorem updateMod_no_update_witness:
  "latestVersion ex_failed_report = None
   \<and> updateMod ex_manager ex_failed_report ex_profile ex_world
       = (Rejected (Error ''No update available''), ex_world)"
proof -
  have none: "latestVersion ex_failed_report = None"
    by (simp add: ex_failed_report_def spread_def)
  from updateMod_no_update[OF none] none show ?thesis by simp
qed








subsection \<open>Steps that resolved, and the commit of the registry\<close>





















subsection \<open>\<open>checkForUpdates\<close>\<close>

text \<open>
  Claim C10. When the mods directory of the profile does not exist (or is not configured),
  \<open>checkForUpdates\<close> resolves with no report, and the events it emits are
  \<open>updateCheckStarted\<close> with a mod count of 0 and \<open>updateCheckCompleted\<close> with no result and
  0 updates available.
\<close>

theorem checkForUpdates_missing_mods_dir:
  assumes "getProfile mgr profileId = Some profile"
    and "case modsPath profile of None \<Rightarrow> True | Some d \<Rightarrow> \<not> existsPath (fs w) d"
  shows "\<exists>w'. checkForUpdates mgr profileId w = (Resolved [], w')
      \<and> filter isEmit (actionsSince w w')
          = [Emit (UpdateCheckStarted profileId 0), Emit (UpdateCheckCompleted profileId [] 0)]"
  using assms
  by (auto simp: checkForUpdates_def getInstalledMods_def await_def pathExists_def resolve_def
      emitting_def emit_def actionsSince_def split: option.splits)

text \<open>The profile whose mods directory is \<open>/gone\<close>.\<close>

theorem checkForUpdates_missing_mods_dir_witness:
  "getProfile ex_manager_gone ''default'' = Some ex_profile_gone
   \<and> modsPath ex_profile_gone = Some ''/gone''
   \<and> \<not> existsPath (fs ex_world) ''/gone''
   \<and> fst (checkForUpdates ex_manager_gone ''default'' ex_world) = Resolved []
   \<and> filter isEmit
        (actionsSince ex_world (snd (checkForUpdates ex_manager_gone ''default'' ex_world)))
       = [Emit (UpdateCheckStarted ''default'' 0),
          Emit (UpdateCheckCompleted ''default'' [] 0)]"
proof -
  have gp: "getProfile ex_manager_gone ''default'' = Some ex_profile_gone"
    by (simp add: ex_manager_gone_def)
  have mp: "modsPath ex_profile_gone = Some ''/gone''"
    by (simp add: ex_profile_gone_def)
  have gone: "\<not> existsPath (fs ex_world) ''/gone''"
    by (simp add: existsPath_def lookupFile_def isDir_def ex_world_def)
  have "case modsPath ex_profile_gone of None \<Rightarrow> True
        | Some d \<Rightarrow> \<not> existsPath (fs ex_world) d"
    using mp gone by simp
  from checkForUpdates_missing_mods_dir[OF gp this] obtain w' where
    "checkForUpdates ex_manager_gone ''default'' ex_world = (Resolved [], w')"
    "filter isEmit (actionsSince ex_world w')
       = [Emit (UpdateCheckStarted ''default'' 0),
          Emit (UpdateCheckCompleted ''default'' [] 0)]"
    by blast
  with gp mp gone show ?thesis by simp
qed

text \<open>The body of the loop always resolves, with the report of the \<open>try\<close> block or with
  the one of the \<open>catch\<close> block; so does the loop, with one report for each mod.\<close>

lemma checkMod_result:
  "case fst (getLatestVersion mgr (projectId m) (gameVersion profile) (loader profile)
               (emit (CheckingMod (name m) (i + 1) len) w)) of
     Resolved latest \<Rightarrow>
       fst (checkMod mgr profile len i m w) =
         Resolved (case latest of
             None \<Rightarrow> spread m False None (Some False) None None
           | Some lv \<Rightarrow>
               if compareVersions (currentVersion m) (version_number lv) < 0
               then spread m True (Some lv) (Some True)
                      (Some (case files lv of [] \<Rightarrow> 0 | f # _ \<Rightarrow> file_size f)) None
               else spread m False None (Some False) None None)
   | Rejected e \<Rightarrow>
       fst (checkMod mgr profile len i m w)
         = Resolved (spread m False None None None (Some (message e)))
   | Pending \<Rightarrow> False"
proof -
  let ?q = "getLatestVersion mgr (projectId m) (gameVersion profile) (loader profile)
               (emit (CheckingMod (name m) (i + 1) len) w)"
  have "fst ?q \<noteq> Pending"
    using settles_getLatestVersion[of mgr "projectId m" "gameVersion profile" "loader profile"]
    by (simp add: settles_def)
  then show ?thesis
    by (cases ?q; cases "fst ?q")
       (auto simp: checkMod_def tryCatch_def await_def emitting_def resolve_def
             split: option.splits)
qed

lemma checkMod_resolves: "\<exists>r w'. checkMod mgr profile len i m w = (Resolved r, w')"
proof -
  from checkMod_result[of mgr profile len i m w]
  have "\<exists>r. fst (checkMod mgr profile len i m w) = Resolved r"
    by (auto split: outcome.splits)
  then show ?thesis by (cases "checkMod mgr profile len i m w") auto
qed

lemma checkLoop_resolves:
  "\<exists>rs w'. checkLoop mgr profile len i ms w = (Resolved rs, w') \<and> length rs = length ms"
proof (induction ms arbitrary: i w)
  case Nil
  show ?case by (simp add: resolve_def)
next
  case (Cons m ms)
  obtain r w1 where r: "checkMod mgr profile len i m w = (Resolved r, w1)"
    using checkMod_resolves by blast
  from Cons.IH[of "i + 1" w1] obtain rs w2 where
    "checkLoop mgr profile len (i + 1) ms w1 = (Resolved rs, w2)" "length rs = length ms"
    by blast
  with r show ?case by (simp add: await_def resolve_def)
qed

lemma checkLoop_nth:
  assumes "fst (checkLoop mgr profile len i ms w) = Resolved rs" and "k < length ms"
  shows "Resolved (rs ! k) =
     fst (checkMod mgr profile len (i + k) (ms ! k)
           (snd (checkLoop mgr profile len i (take k ms) w)))"
  using assms
proof (induction ms arbitrary: i w k rs)
  case Nil
  then show ?case by simp
next
  case (Cons m ms)
  obtain r w1 where r: "checkMod mgr profile len i m w = (Resolved r, w1)"
    using checkMod_resolves by blast
  obtain rs' w2 where rs': "checkLoop mgr profile len (i + 1) ms w1 = (Resolved rs', w2)"
    using checkLoop_resolves by blast
  from Cons.prems(1) r rs' have rs: "rs = r # rs'"
    by (simp add: await_def resolve_def)
  show ?case
  proof (cases k)
    case 0
    with r rs show ?thesis by (simp add: resolve_def)
  next
    case (Suc j)
    with Cons.prems(2) have j: "j < length ms" by simp
    obtain ps w3 where
      ps: "checkLoop mgr profile len (i + 1) (take j ms) w1 = (Resolved ps, w3)"
      using checkLoop_resolves by blast
    have "snd (checkLoop mgr profile len i (take k (m # ms)) w) = w3"
      using Suc r ps by (simp add: await_def resolve_def)
    moreover from Cons.IH[of "i + 1" w1 rs' j] rs' j ps have
      "Resolved (rs' ! j) = fst (checkMod mgr profile len (i + 1 + j) (ms ! j) w3)" by simp
    ultimately show ?thesis using Suc rs by simp
  qed
qed

text \<open>
  Claim C5. For every list of installed mods that \<open>getInstalledMods\<close> resolves with,
  \<open>checkForUpdates\<close> resolves with exactly one report for each mod, in the same order;
  when the catalog query for a mod fails, the report of that mod has \<open>hasUpdate = false\<close>
  and the message of the error as its \<open>error\<close>, and the check goes on with the next mod.
\<close>

theorem checkForUpdates_one_report_each:
  assumes gp: "getProfile mgr profileId = Some profile"
    and gi: "getInstalledMods mgr profile w = (Resolved mods, w1)"
  shows "\<exists>reports w'.
      checkForUpdates mgr profileId w = (Resolved reports, w')
    \<and> length reports = length mods
    \<and> (\<forall>k<length mods.
          modOf (reports ! k) = mods ! k
        \<and> (\<forall>e. catalogAnswer mgr profile mods k
                   (emit (UpdateCheckStarted profileId (length mods)) w1) = Rejected e
             \<longrightarrow> hasUpdate (reports ! k) = False
               \<and> error (reports ! k) = Some (message e)))"
proof -
  let ?w0 = "emit (UpdateCheckStarted profileId (length mods)) w1"
  obtain reports w2 where
    loop: "checkLoop mgr profile (length mods) 0 mods ?w0 = (Resolved reports, w2)"
    and len: "length reports = length mods"
    using checkLoop_resolves by blast
  let ?w' = "emit (UpdateCheckCompleted profileId reports (length (filter hasUpdate reports))) w2"
  have run: "checkForUpdates mgr profileId w = (Resolved reports, ?w')"
    using gp gi loop by (simp add: checkForUpdates_def await_def emitting_def resolve_def)
  have each: "modOf (reports ! k) = mods ! k
        \<and> (\<forall>e. catalogAnswer mgr profile mods k ?w0 = Rejected e
             \<longrightarrow> hasUpdate (reports ! k) = False \<and> error (reports ! k) = Some (message e))"
    if k: "k < length mods" for k
  proof -
    let ?wk = "checkStateBefore mgr profile mods k ?w0"
    from checkLoop_nth[of mgr profile "length mods" 0 mods ?w0 reports k] loop k have
      nth: "fst (checkMod mgr profile (length mods) k (mods ! k) ?wk) = Resolved (reports ! k)"
      by (simp add: checkStateBefore_def)
    from checkMod_result[of mgr profile "length mods" k "mods ! k" ?wk]
    show ?thesis
      unfolding nth
      by (auto simp: catalogAnswer_def modOf_def spread_def
               split: outcome.splits option.splits)
  qed
  from run len each show ?thesis by blast
qed

text \<open>Two mods, the catalog query of the second fails.\<close>

theorem checkForUpdates_one_report_each_witness:
  "getProfile ex_manager ''default'' = Some ex_profile
   \<and> fst (getInstalledMods ex_manager ex_profile ex_world) = Resolved [ex_sodium, ex_other]
   \<and> catalogAnswer ex_manager ex_profile [ex_sodium, ex_other] 1
        (emit (UpdateCheckStarted ''default'' 2)
           (snd (getInstalledMods ex_manager ex_profile ex_world)))
       = Rejected (Error ''Failed to get latest version: 404'')
   \<and> (\<exists>reports.
         fst (checkForUpdates ex_manager ''default'' ex_world) = Resolved reports
       \<and> length reports = 2
       \<and> modOf (reports ! 0) = ex_sodium
       \<and> modOf (reports ! 1) = ex_other
       \<and> hasUpdate (reports ! 1) = False
       \<and> error (reports ! 1) = Some ''Failed to get latest version: 404'')"
proof -
  let ?w1 = "snd (getInstalledMods ex_manager ex_profile ex_world)"
  have gp: "getProfile ex_manager ''default'' = Some ex_profile"
    by (simp add: ex_manager_def)
  have mods: "fst (getInstalledMods ex_manager ex_profile ex_world)
                = Resolved [ex_sodium, ex_other]"
    by code_simp
  then have gi: "getInstalledMods ex_manager ex_profile ex_world
                   = (Resolved [ex_sodium, ex_other], ?w1)"
    by (simp add: prod_eq_iff)
  have answer: "catalogAnswer ex_manager ex_profile [ex_sodium, ex_other] 1
        (emit (UpdateCheckStarted ''default'' 2) ?w1)
       = Rejected (Error ''Failed to get latest version: 404'')"
    by code_simp
  from checkForUpdates_one_report_each[OF gp gi] obtain reports w' where
    run: "checkForUpdates ex_manager ''default'' ex_world = (Resolved reports, w')"
    and len: "length reports = length [ex_sodium, ex_other]"
    and each: "\<forall>k<length [ex_sodium, ex_other].
          modOf (reports ! k) = [ex_sodium, ex_other] ! k
        \<and> (\<forall>e. catalogAnswer ex_manager ex_profile [ex_sodium, ex_other] k
                   (emit (UpdateCheckStarted ''default'' (length [ex_sodium, ex_other])) ?w1)
                 = Rejected e
             \<longrightarrow> hasUpdate (reports ! k) = False
               \<and> error (reports ! k) = Some (message e))"
    by blast
  have two: "length [ex_sodium, ex_other] = 2" by simp
  from each[rule_format, of 0] have first: "modOf (reports ! 0) = ex_sodium" by simp
  have "(1::nat) < length [ex_sodium, ex_other]" by simp
  with each have
    "modOf (reports ! 1) = [ex_sodium, ex_other] ! 1
     \<and> (\<forall>e. catalogAnswer ex_manager ex_profile [ex_sodium, ex_other] 1
                   (emit (UpdateCheckStarted ''default'' (length [ex_sodium, ex_other])) ?w1)
                 = Rejected e
             \<longrightarrow> hasUpdate (reports ! 1) = False
               \<and> error (reports ! 1) = Some (message e))"
    by blast
  with answer have second:
    "modOf (reports ! 1) = ex_other" "hasUpdate (reports ! 1) = False"
    "error (reports ! 1) = Some ''Failed to get latest version: 404''"
    unfolding two by simp_all
  from run len first second have "\<exists>reports.
         fst (checkForUpdates ex_manager ''default'' ex_world) = Resolved reports
       \<and> length reports = 2
       \<and> modOf (reports ! 0) = ex_sodium
       \<and> modOf (reports ! 1) = ex_other
       \<and> hasUpdate (reports ! 1) = False
       \<and> error (reports ! 1) = Some ''Failed to get latest version: 404''"
    by simp
  with gp mods answer show ?thesis by blast
qed

text \<open>
  Claim C8 does not hold of the code. \<open>updateSize\<close> is the size of the first file of the
  candidate, \<open>latestVersion.files[0]\<close>, whether it is the primary file or not. Here the
  primary file is the second one: the report says 10, the primary file, which \<open>updateMod\<close>
  downloads, has size 20.
\<close>

theorem updateSize_is_first_file:
  "fst (checkForUpdates ex_manager ''default'' ex_world)
     = Resolved [ex_report, ex_failed_report]
   \<and> hasUpdate ex_report = True
   \<and> latestVersion ex_report = Some ex_version
   \<and> updateSize ex_report = Some 10
   \<and> map_option file_size (find primary (files ex_version)) = Some 20
   \<and> map_option file_size (chooseDownload (files ex_version)) = Some 20"
  by code_simp

subsection \<open>\<open>updateMultipleMods\<close>\<close>








end
